theory Spec2Isabelle
  imports Complex_Main "HOL-Library.Multiset" "HOL-Library.AList" "HOL-Library.Sublist"
    "HOL-Library.Log_Nat"
begin

section \<open>Python values\<close>

text \<open>
  The repository holds two front ends of one resume-ranking pipeline: the Flask route
  \<^verbatim>\<open>analyze\<close> of \<^verbatim>\<open>app.py\<close> and the button handler of \<^verbatim>\<open>streamlit.py\<close>.
  Both are embedded below, function by function, under the names of the source.

  Python strings are lists of 8-bit characters, read as the code points 0..255.
  Python exceptions are values of \<open>error\<close>; a call that may raise returns
  \<open>error + 'a\<close>, with \<open>Inl\<close> for the exception. Every exception modelled is a subclass
  of \<^verbatim>\<open>Exception\<close>.
\<close>

type_synonym bytes = string

datatype error =
    JSONDecodeError
  | AttributeError
  | TypeError
  | ValueError
  | OverflowError
  | OtherError string

text \<open>
  A Python float is an IEEE double: a finite value (the exact rational it stands for),
  an infinity or a NaN.
\<close>

datatype pyfloat = Finite rat | PosInf | NegInf | NaN

text \<open>
  What \<^verbatim>\<open>json.loads\<close> returns: \<^verbatim>\<open>None\<close>, a bool, an int, a float, a str, a list
  or a dict with string keys. A dict is an association list in insertion order.
\<close>

datatype json =
    JNull
  | JBool bool
  | JInt int
  | JFloat pyfloat
  | JStr string
  | JArr "json list"
  | JObj "(string \<times> json) list"

type_synonym pydict = "(string \<times> json) list"

text \<open>\<^verbatim>\<open>d.get(k)\<close>, \<^verbatim>\<open>d[k] = v\<close> and \<^verbatim>\<open>d.setdefault(k, v)\<close> on a dict.\<close>

definition dict_get :: "pydict \<Rightarrow> string \<Rightarrow> json option" where
  "dict_get d k = map_of d k"

definition dict_set :: "string \<Rightarrow> json \<Rightarrow> pydict \<Rightarrow> pydict" where
  "dict_set k v d = AList.update k v d"

definition setdefault :: "string \<Rightarrow> json \<Rightarrow> pydict \<Rightarrow> pydict" where
  "setdefault k v d = (case dict_get d k of None \<Rightarrow> dict_set k v d | Some _ \<Rightarrow> d)"

section \<open>String built-ins\<close>

text \<open>
  \<^verbatim>\<open>s.replace(old, new)\<close>: the occurrences of \<open>old\<close> are replaced from the left,
  without overlap. With an empty \<open>old\<close>, Python puts \<open>new\<close> before every character and
  at the end.
\<close>

fun replace :: "string \<Rightarrow> string \<Rightarrow> string \<Rightarrow> string" where
  "replace old new [] = (if old = [] then new else [])"
| "replace old new (c # cs) =
     (if old = [] then new @ c # replace old new cs
      else if prefix old (c # cs) then new @ replace old new (drop (length old - 1) cs)
      else c # replace old new cs)"

text \<open>
  \<^verbatim>\<open>str.isspace\<close> on the code points 0..255: tab to carriage return, the four
  separators 0x1C..0x1F, the space, NEL (0x85) and the no-break space (0xA0).
\<close>

definition is_space :: "char \<Rightarrow> bool" where
  "is_space c = (of_char c \<in> set [9, 10, 11, 12, 13, 28, 29, 30, 31, 32, 133, 160 :: nat])"

definition strip :: "string \<Rightarrow> string" where
  "strip s = rev (dropWhile is_space (rev (dropWhile is_space s)))"

text \<open>\<^verbatim>\<open>str.lower\<close> on the ASCII letters, which is all a suffix test on an extension reads.\<close>

definition lower_char :: "char \<Rightarrow> char" where
  "lower_char c =
     (case map_of (zip ''ABCDEFGHIJKLMNOPQRSTUVWXYZ'' ''abcdefghijklmnopqrstuvwxyz'') c of
        None \<Rightarrow> c | Some l \<Rightarrow> l)"

definition lower :: "string \<Rightarrow> string" where
  "lower s = map lower_char s"

text \<open>\<^verbatim>\<open>s.endswith(suf)\<close>, read from the end of both strings.\<close>

definition endswith :: "string \<Rightarrow> string \<Rightarrow> bool" where
  "endswith s suf = prefix (rev suf) (rev s)"

text \<open>
  \<^verbatim>\<open>re.search(r'\{.*\}', s, re.DOTALL)\<close>: the match starts at the first \<open>{\<close> and, the
  star being greedy and the dot matching every character, ends at the last \<open>}\<close> after
  it; there is no match when no \<open>}\<close> follows the first \<open>{\<close>.
\<close>

definition upto_last_brace :: "string \<Rightarrow> string option" where
  "upto_last_brace s =
     (let r = dropWhile (\<lambda>c. c \<noteq> CHR ''}'') (rev s) in if r = [] then None else Some (rev r))"

definition search_braces :: "string \<Rightarrow> string option" where
  "search_braces s =
     (case dropWhile (\<lambda>c. c \<noteq> CHR ''{'') s of
        [] \<Rightarrow> None
      | b # rest \<Rightarrow> (case upto_last_brace rest of None \<Rightarrow> None | Some m \<Rightarrow> Some (b # m)))"

section \<open>Numbers and their text\<close>

text \<open>\<^verbatim>\<open>str(n)\<close> of an int: its decimal digits, after a minus sign when negative.\<close>

definition digit_char :: "nat \<Rightarrow> char" where
  "digit_char d = ''0123456789'' ! d"

function digits_of_nat :: "nat \<Rightarrow> string" where
  "digits_of_nat n = (if n < 10 then [digit_char n] else digits_of_nat (n div 10) @ [digit_char (n mod 10)])"
  by pat_completeness auto
termination
  by (relation "measure id") auto

definition str_of_int :: "int \<Rightarrow> string" where
  "str_of_int n = (if n < 0 then CHR ''-'' # digits_of_nat (nat (- n)) else digits_of_nat (nat n))"

text \<open>
  \<^verbatim>\<open>str.isdigit\<close> on the code points 0..255: the ASCII digits and the superscripts
  two, three and one (0xB2, 0xB3, 0xB9). The string must be non-empty.
  \<^verbatim>\<open>int(s)\<close> reads ASCII digits only and raises ValueError on a superscript; from
  Python 3.11 on it also raises ValueError on more than 4300 digits. \<^verbatim>\<open>json.loads\<close>
  reads its integers with \<^verbatim>\<open>int\<close>, so the ints it returns are within that limit and
  \<^verbatim>\<open>str\<close> prints them.
\<close>

definition is_ascii_digit :: "char \<Rightarrow> bool" where
  "is_ascii_digit c = (48 \<le> (of_char c :: nat) \<and> (of_char c :: nat) \<le> 57)"

definition is_digit_char :: "char \<Rightarrow> bool" where
  "is_digit_char c = (is_ascii_digit c \<or> of_char c \<in> set [178, 179, 185 :: nat])"

definition isdigit :: "string \<Rightarrow> bool" where
  "isdigit s = (s \<noteq> [] \<and> list_all is_digit_char s)"

definition digit_val :: "char \<Rightarrow> nat" where
  "digit_val c = of_char c - 48"

definition nat_of_digits :: "string \<Rightarrow> nat" where
  "nat_of_digits s = foldl (\<lambda>v c. 10 * v + digit_val c) 0 s"

definition int_max_str_digits :: nat where
  "int_max_str_digits = 4300"

definition int_of_digit_string :: "string \<Rightarrow> error + int" where
  "int_of_digit_string s =
     (if s \<noteq> [] \<and> list_all is_ascii_digit s \<and> length s \<le> int_max_str_digits
      then Inr (int (nat_of_digits s)) else Inl ValueError)"

text \<open>
  \<^verbatim>\<open>round(f)\<close> of a float rounds half to even and returns an int; it raises
  OverflowError on an infinity and ValueError on a NaN.
\<close>

definition round_half_even :: "rat \<Rightarrow> int" where
  "round_half_even q =
     (let f = \<lfloor>q\<rfloor>; d = q - of_int f
      in if d < 1 / 2 then f else if 1 / 2 < d then f + 1 else if even f then f else f + 1)"

definition py_round :: "pyfloat \<Rightarrow> error + int" where
  "py_round x =
     (case x of Finite q \<Rightarrow> Inr (round_half_even q)
      | PosInf \<Rightarrow> Inl OverflowError | NegInf \<Rightarrow> Inl OverflowError | NaN \<Rightarrow> Inl ValueError)"

text \<open>
  The double nearest to a rational, ties to even: 53 bits of mantissa, exponents from
  -1022 (below which the spacing stays \<open>2 ^ -1074\<close>), and an infinity from \<open>2 ^ 1024\<close> on.
\<close>

definition pow2 :: "int \<Rightarrow> rat" where
  "pow2 e = (if 0 \<le> e then 2 ^ nat e else 1 / 2 ^ nat (- e))"

definition floor_log2 :: "rat \<Rightarrow> int" where
  "floor_log2 a =
     (let (p, q) = quotient_of a; k = bitlen p - bitlen q
      in if pow2 k \<le> a then k else k - 1)"

definition nearest_double :: "rat \<Rightarrow> pyfloat" where
  "nearest_double q =
     (if q = 0 then Finite 0
      else let a = \<bar>q\<bar>;
               e = max (floor_log2 a) (- 1022);
               u = pow2 (e - 52);
               v = of_int (round_half_even (a / u)) * u
           in if pow2 1024 \<le> v then (if 0 < q then PosInf else NegInf)
              else Finite (if 0 < q then v else - v))"

text \<open>
  \<^verbatim>\<open>float(s)\<close> of a string, after the grammar of the language reference: surrounding
  whitespace is dropped; then an optional sign; then \<^verbatim>\<open>inf\<close>, \<^verbatim>\<open>infinity\<close> or
  \<^verbatim>\<open>nan\<close> in any case, or a decimal number: digits (single underscores allowed
  between digits), an optional point, optional digits, an optional exponent.
  \<open>None\<close> is the ValueError.
\<close>

fun digitpart_rest :: "int \<Rightarrow> nat \<Rightarrow> string \<Rightarrow> int \<times> nat \<times> string" where
  "digitpart_rest v k [] = (v, k, [])"
| "digitpart_rest v k [c] = (if is_ascii_digit c then (10 * v + int (digit_val c), Suc k, []) else (v, k, [c]))"
| "digitpart_rest v k (c # d # ds) =
     (if is_ascii_digit c then digitpart_rest (10 * v + int (digit_val c)) (Suc k) (d # ds)
      else if c = CHR ''_'' \<and> is_ascii_digit d then digitpart_rest (10 * v + int (digit_val d)) (Suc k) ds
      else (v, k, c # d # ds))"

definition digitpart :: "string \<Rightarrow> (int \<times> nat \<times> string) option" where
  "digitpart s =
     (case s of [] \<Rightarrow> None
      | c # cs \<Rightarrow> if is_ascii_digit c then Some (digitpart_rest (int (digit_val c)) 1 cs) else None)"

definition exponent :: "rat \<Rightarrow> string \<Rightarrow> rat option" where
  "exponent m s =
     (case s of [] \<Rightarrow> Some m
      | c # cs \<Rightarrow>
          if c = CHR ''e'' \<or> c = CHR ''E'' then
            (let (neg, ds) = (case cs of [] \<Rightarrow> (False, cs)
                              | x # xs \<Rightarrow> if x = CHR ''-'' then (True, xs)
                                         else if x = CHR ''+'' then (False, xs) else (False, cs))
             in case digitpart ds of
                  Some (n, _, []) \<Rightarrow> Some (if neg then m / 10 ^ nat n else m * 10 ^ nat n)
                | _ \<Rightarrow> None)
          else None)"

definition floatnumber :: "string \<Rightarrow> rat option" where
  "floatnumber s =
     (case digitpart s of
        Some (i, _, r) \<Rightarrow>
          (case r of
             [] \<Rightarrow> Some (of_int i)
           | c # r2 \<Rightarrow>
               if c = CHR ''.'' then
                 (case digitpart r2 of
                    Some (f, k, r3) \<Rightarrow> exponent (of_int i + of_int f / 10 ^ k) r3
                  | None \<Rightarrow> exponent (of_int i) r2)
               else exponent (of_int i) r)
      | None \<Rightarrow>
          (case s of
             [] \<Rightarrow> None
           | c # r2 \<Rightarrow>
               if c = CHR ''.'' then
                 (case digitpart r2 of
                    Some (f, k, r3) \<Rightarrow> exponent (of_int f / 10 ^ k) r3
                  | None \<Rightarrow> None)
               else None))"

definition absfloatvalue :: "string \<Rightarrow> pyfloat option" where
  "absfloatvalue s =
     (if lower s = ''inf'' \<or> lower s = ''infinity'' then Some PosInf
      else if lower s = ''nan'' then Some NaN
      else map_option nearest_double (floatnumber s))"

definition negate :: "pyfloat \<Rightarrow> pyfloat" where
  "negate x = (case x of Finite q \<Rightarrow> Finite (- q) | PosInf \<Rightarrow> NegInf | NegInf \<Rightarrow> PosInf | NaN \<Rightarrow> NaN)"

definition py_float :: "string \<Rightarrow> pyfloat option" where
  "py_float s =
     (case strip s of
        [] \<Rightarrow> None
      | c # cs \<Rightarrow> if c = CHR ''-'' then map_option negate (absfloatvalue cs)
                 else if c = CHR ''+'' then absfloatvalue cs
                 else absfloatvalue (c # cs))"

section \<open>The libraries the code calls\<close>

text \<open>
  What the repository takes from outside is a parameter of the model: the PDF reader
  (the pages of a stream, each with the result of \<^verbatim>\<open>extract_text\<close>, which may be
  \<^verbatim>\<open>None\<close>), the DOCX reader (the paragraph texts), the decoding of bytes that
  ignores errors, whether an API key is configured, the language model (the reply to the
  prompt built from a resume text and a job description), \<^verbatim>\<open>json.loads\<close>, and
  \<^verbatim>\<open>str\<close> of a float and of a list or dict.
\<close>

record env =
  pdf_pages :: "bytes \<Rightarrow> error + (error + string option) list"
  docx_paragraphs :: "bytes \<Rightarrow> error + string list"
  decode_ignore :: "bytes \<Rightarrow> string"
  api_key :: bool
  generate_content :: "string \<Rightarrow> string \<Rightarrow> error + string"
  json_loads :: "string \<Rightarrow> error + json"
  float_repr :: "pyfloat \<Rightarrow> string"
  container_repr :: "json \<Rightarrow> string"

text \<open>
  \<^verbatim>\<open>str(v)\<close> of a value that \<^verbatim>\<open>json.loads\<close> returned. An int that the
  decoder accepted is within the digit limit of the interpreter, so \<^verbatim>\<open>str\<close> of it
  does not raise.
\<close>

definition py_str :: "env \<Rightarrow> json \<Rightarrow> string" where
  "py_str E v =
     (case v of
        JNull \<Rightarrow> ''None''
      | JBool b \<Rightarrow> (if b then ''True'' else ''False'')
      | JInt n \<Rightarrow> str_of_int n
      | JFloat f \<Rightarrow> float_repr E f
      | JStr s \<Rightarrow> s
      | JArr xs \<Rightarrow> container_repr E (JArr xs)
      | JObj d \<Rightarrow> container_repr E (JObj d))"

section \<open>Text extraction\<close>

text \<open>
  The loop \<^verbatim>\<open>for page in reader.pages: text += page.extract_text() or ""\<close>:
  a page that raises ends the loop with its exception, a page without text adds nothing.
\<close>

fun concat_pages :: "string \<Rightarrow> (error + string option) list \<Rightarrow> error + string" where
  "concat_pages text [] = Inr text"
| "concat_pages text (Inl e # ps) = Inl e"
| "concat_pages text (Inr None # ps) = concat_pages (text @ []) ps"
| "concat_pages text (Inr (Some t) # ps) = concat_pages (text @ t) ps"

definition read_pdf :: "env \<Rightarrow> bytes \<Rightarrow> error + string" where
  "read_pdf E b = (case pdf_pages E b of Inl e \<Rightarrow> Inl e | Inr ps \<Rightarrow> concat_pages [] ps)"

text \<open>
  \<^verbatim>\<open>try: ... except Exception: return ""\<close>: the handler of every extractor. What it
  prints or displays is itself guarded and changes nothing.
\<close>

definition except_empty :: "error + string \<Rightarrow> error + string" where
  "except_empty r = (case r of Inl e \<Rightarrow> Inr [] | Inr t \<Rightarrow> Inr t)"

definition extract_text_from_pdf :: "env \<Rightarrow> bytes \<Rightarrow> error + string" where
  "extract_text_from_pdf E b = except_empty (read_pdf E b)"

definition extract_text_from_pdf_bytes :: "env \<Rightarrow> bytes \<Rightarrow> error + string" where
  "extract_text_from_pdf_bytes E b = except_empty (read_pdf E b)"

text \<open>\<^verbatim>\<open>"\n".join(paragraphs)\<close>\<close>

fun join_lines :: "string list \<Rightarrow> string" where
  "join_lines [] = []"
| "join_lines [p] = p"
| "join_lines (p # q # ps) = p @ CHR 0x0A # join_lines (q # ps)"

definition extract_text_from_docx_bytes :: "env \<Rightarrow> bytes \<Rightarrow> error + string" where
  "extract_text_from_docx_bytes E b =
     except_empty (case docx_paragraphs E b of Inl e \<Rightarrow> Inl e | Inr ps \<Rightarrow> Inr (join_lines ps))"

definition extract_text_from_txt_bytes :: "env \<Rightarrow> bytes \<Rightarrow> error + string" where
  "extract_text_from_txt_bytes E b = except_empty (Inr (decode_ignore E b))"

section \<open>The language model and the cleaning of its reply\<close>

text \<open>
  \<^verbatim>\<open>get_gemini_response\<close> of \<^verbatim>\<open>app.py\<close>: any exception of the request gives the
  text \<^verbatim>\<open>{}\<close>. The one of \<^verbatim>\<open>streamlit.py\<close> also gives it when no API key is set.
\<close>

definition app_get_gemini_response :: "env \<Rightarrow> string \<Rightarrow> string \<Rightarrow> string" where
  "app_get_gemini_response E input_text jd =
     (case generate_content E input_text jd of Inl e \<Rightarrow> ''{}'' | Inr t \<Rightarrow> t)"

definition get_gemini_response :: "env \<Rightarrow> string \<Rightarrow> string \<Rightarrow> string" where
  "get_gemini_response E resume_text jd_text =
     (if \<not> api_key E then ''{}''
      else case generate_content E resume_text jd_text of Inl e \<Rightarrow> ''{}'' | Inr t \<Rightarrow> t)"

text \<open>The fence markers are removed, then the text between the braces is taken.\<close>

definition strip_fences :: "string \<Rightarrow> string" where
  "strip_fences s = replace ''```'' [] (replace ''```json'' [] s)"

definition app_clean_json :: "string \<Rightarrow> string" where
  "app_clean_json ai_response =
     (let clean_json = strip_fences ai_response
      in case search_braces clean_json of Some m \<Rightarrow> m | None \<Rightarrow> clean_json)"

definition clean_ai_json :: "string \<Rightarrow> string" where
  "clean_ai_json ai_text =
     (if ai_text = [] then ''{}''
      else let cleaned = strip_fences ai_text
           in case search_braces cleaned of Some m \<Rightarrow> m | None \<Rightarrow> cleaned)"

section \<open>Ranking\<close>

text \<open>
  \<^verbatim>\<open>results.sort(key=lambda x: x.get('MatchPercentage', 0), reverse=True)\<close>, the same
  line in both front ends. With \<^verbatim>\<open>reverse=True\<close> the list is reversed, sorted stably
  in ascending order of the key and reversed again. The keys the front ends store are
  ints; a bool compares as 0 or 1. A key of another type is outside the order modelled
  here and is the TypeError that Python raises when it compares unordered values.
\<close>

definition has_score :: "pydict \<Rightarrow> bool" where
  "has_score x =
     (case dict_get x ''MatchPercentage'' of
        None \<Rightarrow> True | Some (JInt n) \<Rightarrow> True | Some (JBool b) \<Rightarrow> True | Some _ \<Rightarrow> False)"

definition score :: "pydict \<Rightarrow> int" where
  "score x =
     (case dict_get x ''MatchPercentage'' of
        None \<Rightarrow> 0 | Some (JInt n) \<Rightarrow> n | Some (JBool b) \<Rightarrow> (if b then 1 else 0) | Some _ \<Rightarrow> 0)"

definition sort_reverse :: "pydict list \<Rightarrow> pydict list" where
  "sort_reverse results = rev (sort_key score (rev results))"

definition sort_results :: "pydict list \<Rightarrow> error + pydict list" where
  "sort_results results =
     (if list_all has_score results then Inr (sort_reverse results) else Inl TypeError)"

section \<open>The Flask front end\<close>

record upload =
  filename :: string
  content :: bytes

text \<open>The record appended when \<^verbatim>\<open>json.loads\<close> raises JSONDecodeError.\<close>

definition app_placeholder :: "string \<Rightarrow> pydict" where
  "app_placeholder fname =
     [(''Name'', JStr fname),
      (''MatchPercentage'', JInt 0),
      (''Summary'', JStr ''Error parsing AI response. View Terminal for details.''),
      (''GlobalMatch'', JStr ''N/A'')]"

text \<open>
  \<^verbatim>\<open>match_pct = str(data.get('MatchPercentage', '0')).replace('%', '')\<close>, then the int
  of it when \<^verbatim>\<open>match_pct.isdigit()\<close> and 0 otherwise.
\<close>

definition app_match_pct :: "env \<Rightarrow> pydict \<Rightarrow> error + int" where
  "app_match_pct E data =
     (let match_pct = replace ''%'' []
            (py_str E (case dict_get data ''MatchPercentage'' of None \<Rightarrow> JStr ''0'' | Some v \<Rightarrow> v))
      in if isdigit match_pct then int_of_digit_string match_pct else Inr 0)"

text \<open>The body of the \<^verbatim>\<open>try\<close> after \<^verbatim>\<open>json.loads\<close>, on a dict.\<close>

definition app_fill_name :: "string \<Rightarrow> pydict \<Rightarrow> pydict" where
  "app_fill_name fname data =
     (if dict_get data ''Name'' = None \<or> dict_get data ''Name'' = Some (JStr ''Candidate Name'')
      then dict_set ''Name'' (JStr fname) data else data)"

definition app_set_match_percentage :: "env \<Rightarrow> pydict \<Rightarrow> error + pydict" where
  "app_set_match_percentage E data =
     (case app_match_pct E data of
        Inl e \<Rightarrow> Inl e
      | Inr n \<Rightarrow> Inr (dict_set ''MatchPercentage'' (JInt n) data))"

definition app_standardize :: "env \<Rightarrow> string \<Rightarrow> pydict \<Rightarrow> error + pydict" where
  "app_standardize E fname data =
     app_set_match_percentage E (dict_set ''Filename'' (JStr fname) (app_fill_name fname data))"

text \<open>
  The \<^verbatim>\<open>try\<close> with its \<^verbatim>\<open>except json.JSONDecodeError\<close>. On a value that is not a
  dict, \<^verbatim>\<open>"Name" not in data\<close> or the item access or assignment that follows raises
  TypeError, which the handler does not catch.
\<close>

definition app_parse :: "env \<Rightarrow> string \<Rightarrow> string \<Rightarrow> error + pydict" where
  "app_parse E fname clean_json =
     (case json_loads E clean_json of
        Inl e \<Rightarrow> (if e = JSONDecodeError then Inr (app_placeholder fname) else Inl e)
      | Inr v \<Rightarrow> (case v of JObj data \<Rightarrow> app_standardize E fname data | _ \<Rightarrow> Inl TypeError))"

text \<open>One round of the loop over the files: \<open>None\<close> is a file skipped.\<close>

definition app_file :: "env \<Rightarrow> string \<Rightarrow> upload \<Rightarrow> error + pydict option" where
  "app_file E jd file =
     (if filename file = [] then Inr None
      else case extract_text_from_pdf E (content file) of
             Inl e \<Rightarrow> Inl e
           | Inr text \<Rightarrow>
               if text = [] then Inr None
               else (case app_parse E (filename file)
                            (app_clean_json (app_get_gemini_response E text jd)) of
                       Inl e \<Rightarrow> Inl e
                     | Inr r \<Rightarrow> Inr (Some r)))"

fun app_loop :: "env \<Rightarrow> string \<Rightarrow> upload list \<Rightarrow> pydict list \<Rightarrow> error + pydict list" where
  "app_loop E jd [] results = Inr results"
| "app_loop E jd (file # files) results =
     (case app_file E jd file of
        Inl e \<Rightarrow> Inl e
      | Inr None \<Rightarrow> app_loop E jd files results
      | Inr (Some r) \<Rightarrow> app_loop E jd files (results @ [r]))"

text \<open>
  The route: status 400 with a message, status 500 with the exception that the outer
  \<^verbatim>\<open>except Exception\<close> caught, or the sorted results.
\<close>

datatype response = Results "pydict list" | BadRequest string | ServerError error

definition analyze :: "env \<Rightarrow> string option \<Rightarrow> upload list \<Rightarrow> response" where
  "analyze E jd files =
     (case jd of
        None \<Rightarrow> BadRequest ''Please provide both JD and Resumes''
      | Some j \<Rightarrow>
          if j = [] \<or> files = [] then BadRequest ''Please provide both JD and Resumes''
          else (case app_loop E j files [] of
                  Inl e \<Rightarrow> ServerError e
                | Inr results \<Rightarrow>
                    (case sort_results results of
                       Inl e \<Rightarrow> ServerError e
                     | Inr sorted_results \<Rightarrow> Results sorted_results)))"

section \<open>The Streamlit front end\<close>

record uploaded =
  file_name :: string
  file_size :: nat
  file_bytes :: bytes

definition max_size :: nat where
  "max_size = 10 * 1024 * 1024"

definition safe_int_percent :: "env \<Rightarrow> json \<Rightarrow> int" where
  "safe_int_percent E val =
     (if val = JNull then 0
      else let s = replace ''%'' [] (strip (py_str E val))
           in case py_float s of
                None \<Rightarrow> 0
              | Some f \<Rightarrow> (case py_round f of Inl e \<Rightarrow> 0 | Inr n \<Rightarrow> n))"

definition st_placeholder :: "string \<Rightarrow> pydict" where
  "st_placeholder name =
     [(''Name'', JStr name),
      (''MatchPercentage'', JInt 0),
      (''GlobalMatch'', JStr ''N/A''),
      (''MarketTier'', JStr []),
      (''MatchedKeywords'', JArr []),
      (''MissingKeywords'', JArr []),
      (''Summary'', JStr ''Error parsing AI response.'')]"

text \<open>\<^verbatim>\<open>parsed.setdefault(k, parsed.get(k, default))\<close>\<close>

definition default_field :: "string \<Rightarrow> json \<Rightarrow> pydict \<Rightarrow> pydict" where
  "default_field k dflt parsed =
     setdefault k (case dict_get parsed k of None \<Rightarrow> dflt | Some v \<Rightarrow> v) parsed"

text \<open>
  The lines after the \<^verbatim>\<open>try\<close>, on a dict. \<^verbatim>\<open>parsed.get("Name")\<close> is \<^verbatim>\<open>None\<close> for a
  missing key and for a null.
\<close>

definition name_is_blank :: "pydict \<Rightarrow> bool" where
  "name_is_blank parsed =
     (case dict_get parsed ''Name'' of
        None \<Rightarrow> True
      | Some v \<Rightarrow> v = JNull \<or> v = JStr [] \<or> v = JStr ''Candidate Name'')"

definition fill_name :: "string \<Rightarrow> pydict \<Rightarrow> pydict" where
  "fill_name name parsed =
     (if name_is_blank parsed then dict_set ''Name'' (JStr name) parsed else parsed)"

definition set_match_percentage :: "env \<Rightarrow> pydict \<Rightarrow> pydict" where
  "set_match_percentage E parsed =
     dict_set ''MatchPercentage''
       (JInt (safe_int_percent E
          (case dict_get parsed ''MatchPercentage'' of None \<Rightarrow> JInt 0 | Some v \<Rightarrow> v))) parsed"

text \<open>The eight statements in their order, the first innermost.\<close>

definition backfill :: "env \<Rightarrow> string \<Rightarrow> pydict \<Rightarrow> pydict" where
  "backfill E name parsed =
     default_field ''Summary'' (JStr [])
       (default_field ''MissingKeywords'' (JArr [])
         (default_field ''MatchedKeywords'' (JArr [])
           (default_field ''MarketTier'' (JStr [])
             (default_field ''GlobalMatch'' (JStr ''N/A'')
               (set_match_percentage E
                 (dict_set ''Filename'' (JStr name)
                   (fill_name name parsed)))))))"

text \<open>
  \<^verbatim>\<open>json.loads\<close> with its \<^verbatim>\<open>except json.JSONDecodeError\<close>, then the lines above. On a
  value that is not a dict, \<^verbatim>\<open>parsed.get\<close> raises AttributeError, outside every
  \<^verbatim>\<open>try\<close>.
\<close>

definition st_parse :: "env \<Rightarrow> string \<Rightarrow> string \<Rightarrow> error + pydict" where
  "st_parse E name cleaned =
     (case (case json_loads E cleaned of
              Inl e \<Rightarrow> (if e = JSONDecodeError then Inr (JObj (st_placeholder name)) else Inl e)
            | Inr v \<Rightarrow> Inr v) of
        Inl e \<Rightarrow> Inl e
      | Inr v \<Rightarrow> (case v of JObj parsed \<Rightarrow> Inr (backfill E name parsed) | _ \<Rightarrow> Inl AttributeError))"

text \<open>The extractor chosen by the extension; \<open>None\<close> is an unsupported type.\<close>

definition st_extract :: "env \<Rightarrow> string \<Rightarrow> bytes \<Rightarrow> error + string option" where
  "st_extract E name b =
     (let low = lower name;
          some = (\<lambda>r. case r of Inl e \<Rightarrow> Inl e | Inr t \<Rightarrow> Inr (Some t))
      in if endswith low ''.pdf'' then some (extract_text_from_pdf_bytes E b)
         else if endswith low ''.docx'' then some (extract_text_from_docx_bytes E b)
         else if endswith low ''.txt'' then some (extract_text_from_txt_bytes E b)
         else if endswith low ''.doc'' then some (extract_text_from_docx_bytes E b)
         else Inr None)"

definition st_file :: "env \<Rightarrow> string \<Rightarrow> uploaded \<Rightarrow> error + pydict option" where
  "st_file E jd up =
     (if max_size < file_size up then Inr None
      else case st_extract E (file_name up) (file_bytes up) of
             Inl e \<Rightarrow> Inl e
           | Inr None \<Rightarrow> Inr None
           | Inr (Some text) \<Rightarrow>
               if text = [] \<or> strip text = [] then Inr None
               else (case st_parse E (file_name up)
                            (clean_ai_json (get_gemini_response E text jd)) of
                       Inl e \<Rightarrow> Inl e
                     | Inr r \<Rightarrow> Inr (Some r)))"

fun st_loop :: "env \<Rightarrow> string \<Rightarrow> uploaded list \<Rightarrow> pydict list \<Rightarrow> error + pydict list" where
  "st_loop E jd [] results = Inr results"
| "st_loop E jd (up # ups) results =
     (case st_file E jd up of
        Inl e \<Rightarrow> Inl e
      | Inr None \<Rightarrow> st_loop E jd ups results
      | Inr (Some r) \<Rightarrow> st_loop E jd ups (results @ [r]))"

text \<open>
  The cards. \<^verbatim>\<open>html.escape(s)\<close> starts with \<^verbatim>\<open>s.replace\<close> and raises
  AttributeError when \<open>s\<close> is not a str. \<^verbatim>\<open>x or d\<close> is \<open>d\<close> when \<open>x\<close> is falsy:
  \<^verbatim>\<open>None\<close>, \<^verbatim>\<open>False\<close>, a zero, an empty str, list or dict. The missing keywords
  are escaped one by one when the field is truthy: the characters of a str, the elements
  of a list, the keys of a dict; any other truthy value is not iterable (TypeError). The
  markup itself is not modelled, only whether building it raises; \<^verbatim>\<open>pct >= 75\<close>
  raises TypeError when the score is not a number.
\<close>

definition score_tag :: "pydict \<Rightarrow> error + unit" where
  "score_tag r =
     (case dict_get r ''MatchPercentage'' of
        None \<Rightarrow> Inr ()
      | Some (JInt n) \<Rightarrow> Inr ()
      | Some (JBool b) \<Rightarrow> Inr ()
      | Some (JFloat f) \<Rightarrow> Inr ()
      | Some _ \<Rightarrow> Inl TypeError)"

definition truthy :: "json \<Rightarrow> bool" where
  "truthy v =
     (case v of
        JNull \<Rightarrow> False
      | JBool b \<Rightarrow> b
      | JInt n \<Rightarrow> n \<noteq> 0
      | JFloat f \<Rightarrow> f \<noteq> Finite 0
      | JStr s \<Rightarrow> s \<noteq> []
      | JArr xs \<Rightarrow> xs \<noteq> []
      | JObj d \<Rightarrow> d \<noteq> [])"

definition html_escape :: "json \<Rightarrow> error + string" where
  "html_escape v =
     (case v of
        JStr s \<Rightarrow>
          Inr (replace [CHR 0x27] ''&#x27;'' (replace [CHR 0x22] ''&quot;''
                 (replace ''>'' ''&gt;'' (replace ''<'' ''&lt;'' (replace ''&'' ''&amp;'' s)))))
      | _ \<Rightarrow> Inl AttributeError)"

definition get_or :: "pydict \<Rightarrow> string \<Rightarrow> string \<Rightarrow> json" where
  "get_or r k d =
     (case dict_get r k of None \<Rightarrow> JStr d | Some v \<Rightarrow> if truthy v then v else JStr d)"

fun escape_all :: "json list \<Rightarrow> error + unit" where
  "escape_all [] = Inr ()"
| "escape_all (x # xs) = (case html_escape x of Inl e \<Rightarrow> Inl e | Inr h \<Rightarrow> escape_all xs)"

definition missing_html :: "pydict \<Rightarrow> error + unit" where
  "missing_html r =
     (case dict_get r ''MissingKeywords'' of
        None \<Rightarrow> Inr ()
      | Some v \<Rightarrow>
          if \<not> truthy v then Inr ()
          else (case v of
                  JStr s \<Rightarrow> Inr ()
                | JArr xs \<Rightarrow> escape_all xs
                | JObj d \<Rightarrow> Inr ()
                | _ \<Rightarrow> Inl TypeError))"

definition render_card :: "pydict \<Rightarrow> error + unit" where
  "render_card r =
     (case score_tag r of
        Inl e \<Rightarrow> Inl e
      | Inr tag \<Rightarrow>
     (case html_escape (case dict_get r ''Name'' of None \<Rightarrow> JStr ''Candidate'' | Some v \<Rightarrow> v) of
        Inl e \<Rightarrow> Inl e
      | Inr name_html \<Rightarrow>
     (case html_escape (get_or r ''MarketTier'' ''Unranked'') of
        Inl e \<Rightarrow> Inl e
      | Inr market_tier_html \<Rightarrow>
     (case html_escape (get_or r ''GlobalMatch'' ''N/A'') of
        Inl e \<Rightarrow> Inl e
      | Inr global_match_html \<Rightarrow>
     (case html_escape (get_or r ''Summary'' ''No summary available'') of
        Inl e \<Rightarrow> Inl e
      | Inr summary_html \<Rightarrow> missing_html r)))))"

fun render_cards :: "pydict list \<Rightarrow> error + unit" where
  "render_cards [] = Inr ()"
| "render_cards (r # rs) = (case render_card r of Inl e \<Rightarrow> Inl e | Inr u \<Rightarrow> render_cards rs)"

text \<open>
  What the page shows after the button: the error for no files, the notice that there
  is nothing to display, or the ranking with all its cards. A missing job description
  only gives a warning and the run goes on. \<open>Inl\<close> is an exception that nothing caught.
\<close>

datatype page = NoFiles string | NoResults | Ranking "pydict list"

definition run_btn :: "env \<Rightarrow> string \<Rightarrow> uploaded list \<Rightarrow> error + page" where
  "run_btn E jd uploaded_files =
     (if uploaded_files = [] then Inr (NoFiles ''Select at least one resume before ranking.'')
      else case st_loop E jd uploaded_files [] of
             Inl e \<Rightarrow> Inl e
           | Inr results \<Rightarrow>
               if results = [] then Inr NoResults
               else (case sort_results results of
                       Inl e \<Rightarrow> Inl e
                     | Inr sorted_results \<Rightarrow>
                         (case render_cards sorted_results of
                            Inl e \<Rightarrow> Inl e
                          | Inr u \<Rightarrow> Inr (Ranking sorted_results))))"

section \<open>The neutral values of the specification\<close>

text \<open>
  The five fields that the specification fills with a neutral value, each with that
  value: the text \<^verbatim>\<open>N/A\<close>, the empty text or the empty sequence.
\<close>

definition neutral_default :: "string \<Rightarrow> json option" where
  "neutral_default k =
     (if k = ''GlobalMatch'' then Some (JStr ''N/A'')
      else if k = ''MarketTier'' then Some (JStr [])
      else if k = ''MatchedKeywords'' then Some (JArr [])
      else if k = ''MissingKeywords'' then Some (JArr [])
      else if k = ''Summary'' then Some (JStr [])
      else None)"

section \<open>Concrete inputs\<close>

text \<open>
  Replies of the language model, and what \<^verbatim>\<open>json.loads\<close> returns on each of them
  (a JSONDecodeError on every other text used below). \<open>double_85_6\<close> is the double that
  Python reads from \<^verbatim>\<open>85.6\<close> and prints as \<^verbatim>\<open>85.6\<close>.
\<close>

definition reply_candidate :: string where
  \<open>reply_candidate = ''{"Name":"Candidate Name","MatchPercentage":60}''\<close>

definition reply_empty_name :: string where
  \<open>reply_empty_name = ''{"Name":"","MatchPercentage":60}''\<close>

definition reply_fraction :: string where
  \<open>reply_fraction = ''{"Name":"Ann","MatchPercentage":85.6}''\<close>

definition reply_percent :: string where
  \<open>reply_percent = ''{"Name":"Ann","MatchPercentage":"85%"}''\<close>

definition reply_bare :: string where
  \<open>reply_bare = ''{"MatchPercentage":60}''\<close>

definition reply_blank_fields :: string where
  \<open>reply_blank_fields = ''{"Name":"Ann","MatchPercentage":60,"GlobalMatch":"","Summary":""}''\<close>

definition reply_numeric_name :: string where
  \<open>reply_numeric_name = ''{"Name":5,"MatchPercentage":60}''\<close>

definition reply_number :: string where
  "reply_number = ''42''"

definition reply_prose :: string where
  "reply_prose = ''Sorry, I cannot score this resume.''"

definition double_85_6 :: pyfloat where
  "double_85_6 = Finite (3011782250804019 / 35184372088832)"

definition demo_loads :: "string \<Rightarrow> error + json" where
  "demo_loads s =
     (if s = reply_candidate
        then Inr (JObj [(''Name'', JStr ''Candidate Name''), (''MatchPercentage'', JInt 60)])
      else if s = reply_empty_name
        then Inr (JObj [(''Name'', JStr []), (''MatchPercentage'', JInt 60)])
      else if s = reply_fraction
        then Inr (JObj [(''Name'', JStr ''Ann''), (''MatchPercentage'', JFloat double_85_6)])
      else if s = reply_percent
        then Inr (JObj [(''Name'', JStr ''Ann''), (''MatchPercentage'', JStr ''85%'')])
      else if s = reply_bare
        then Inr (JObj [(''MatchPercentage'', JInt 60)])
      else if s = reply_blank_fields
        then Inr (JObj [(''Name'', JStr ''Ann''), (''MatchPercentage'', JInt 60),
                        (''GlobalMatch'', JStr []), (''Summary'', JStr [])])
      else if s = reply_numeric_name
        then Inr (JObj [(''Name'', JInt 5), (''MatchPercentage'', JInt 60)])
      else if s = reply_number then Inr (JInt 42)
      else Inl JSONDecodeError)"

text \<open>
  An environment: a PDF has one page of text (its bytes) and one page without text, and a
  stream that reads \<^verbatim>\<open>corrupt\<close> makes the reader raise; the language model answers
  \<open>reply\<close> of the resume text.
\<close>

definition demo_env :: "(string \<Rightarrow> string) \<Rightarrow> env" where
  "demo_env reply =
     \<lparr> pdf_pages = (\<lambda>b. if b = ''corrupt'' then Inl (OtherError ''PdfReadError'')
                          else Inr [Inr (Some b), Inr None]),
       docx_paragraphs = (\<lambda>b. if b = ''corrupt'' then Inl (OtherError ''BadZipFile'') else Inr [b]),
       decode_ignore = (\<lambda>b. b),
       api_key = True,
       generate_content = (\<lambda>resume_text jd. Inr (reply resume_text)),
       json_loads = demo_loads,
       float_repr = (\<lambda>f. if f = double_85_6 then ''85.6'' else ''nan''),
       container_repr = (\<lambda>v. case v of JArr xs \<Rightarrow> ''[]'' | _ \<Rightarrow> ''{}'') \<rparr>"

text \<open>
  Uploads, each a PDF whose text is its bytes: two with words, one with a single space.
  The first is the one on whose text \<open>reply_by_text\<close> answers the bare number.
\<close>

definition reply_by_text :: "string \<Rightarrow> string" where
  "reply_by_text t = (if t = ''first'' then reply_number else reply_candidate)"

definition first_pdf :: upload where
  "first_pdf = \<lparr> filename = ''a.pdf'', content = ''first'' \<rparr>"

definition second_pdf :: upload where
  "second_pdf = \<lparr> filename = ''b.pdf'', content = ''second'' \<rparr>"

definition blank_pdf :: upload where
  "blank_pdf = \<lparr> filename = ''c.pdf'', content = '' '' \<rparr>"

definition first_uploaded :: uploaded where
  "first_uploaded = \<lparr> file_name = ''a.pdf'', file_size = 5, file_bytes = ''first'' \<rparr>"

definition second_uploaded :: uploaded where
  "second_uploaded = \<lparr> file_name = ''b.pdf'', file_size = 6, file_bytes = ''second'' \<rparr>"

definition blank_uploaded :: uploaded where
  "blank_uploaded = \<lparr> file_name = ''c.pdf'', file_size = 1, file_bytes = '' '' \<rparr>"

text \<open>Three results, two of them with the same score.\<close>

definition demo_results :: "pydict list" where
  "demo_results =
     [[(''Name'', JStr ''a''), (''MatchPercentage'', JInt 50)],
      [(''Name'', JStr ''b''), (''MatchPercentage'', JInt 70)],
      [(''Name'', JStr ''c''), (''MatchPercentage'', JInt 50)]]"

section \<open>Ranking is a stable descending sort\<close>

lemma sort_reverse_sorted: "sorted_wrt (\<lambda>x y. score y \<le> score x) (sort_reverse rs)"
proof -
  have "sorted (map score (sort_key score (rev rs)))" by simp
  then have "sorted_wrt (\<lambda>x y. score x \<le> score y) (sort_key score (rev rs))"
    by (simp add: sorted_map)
  then show ?thesis
    unfolding sort_reverse_def by (simp add: sorted_wrt_rev)
qed

lemma sort_reverse_stable:
  "filter (\<lambda>x. score x = k) (sort_reverse rs) = filter (\<lambda>x. score x = k) rs"
proof -
  let ?P = "\<lambda>x. score x = k"
  have "filter ?P (sort_reverse rs) = rev (filter ?P (sort_key score (rev rs)))"
    unfolding sort_reverse_def by (rule rev_filter [symmetric])
  also have "filter ?P (sort_key score (rev rs)) = filter ?P (rev rs)"
    by (rule sort_key_stable)
  also have "rev (filter ?P (rev rs)) = filter ?P rs"
    by (simp add: rev_filter)
  finally show ?thesis .
qed

lemma sort_reverse_mset: "mset (sort_reverse rs) = mset rs"
  unfolding sort_reverse_def by simp

lemma score_of_int: "dict_get x ''MatchPercentage'' = Some (JInt n) \<Longrightarrow> score x = n"
  by (simp add: score_def)

lemma has_score_of_int: "dict_get x ''MatchPercentage'' = Some (JInt n) \<Longrightarrow> has_score x"
  by (simp add: has_score_def)

text \<open>
  Claim C7. Ranking orders every collection of normalized results (records whose
  \<^verbatim>\<open>MatchPercentage\<close> is an int, as both front ends store it) by that field, highest
  first; for every value of the field, the records that have it stand in the order they had
  before (the sort is stable); and the ranked collection holds the same records, none
  changed, added or lost. On the three results with the scores 50, 70 and 50 the ranking
  is the second, the first, the third.
\<close>

theorem ranking_by_match_percentage:
  assumes "list_all (\<lambda>r. \<exists>n. dict_get r ''MatchPercentage'' = Some (JInt n)) rs"
  shows "\<exists>out. sort_results rs = Inr out
           \<and> sorted_wrt (\<lambda>x y. \<exists>m n. dict_get x ''MatchPercentage'' = Some (JInt m)
                                  \<and> dict_get y ''MatchPercentage'' = Some (JInt n) \<and> n \<le> m) out
           \<and> (\<forall>n. filter (\<lambda>x. dict_get x ''MatchPercentage'' = Some (JInt n)) out =
                    filter (\<lambda>x. dict_get x ''MatchPercentage'' = Some (JInt n)) rs)
           \<and> mset out = mset rs"
proof -
  let ?out = "sort_reverse rs"
  have int_rs: "\<exists>n. dict_get r ''MatchPercentage'' = Some (JInt n)" if "r \<in> set rs" for r
    using assms that by (simp add: list_all_iff)
  have set_out: "set ?out = set rs"
    using sort_reverse_mset [of rs] by (metis set_mset_mset)
  have scored: "list_all has_score rs"
    using int_rs has_score_of_int by (auto simp add: list_all_iff)
  have res: "sort_results rs = Inr ?out"
    using scored by (simp add: sort_results_def)
  have key: "(dict_get x ''MatchPercentage'' = Some (JInt n)) = (score x = n)" if "x \<in> set rs" for x n
    using int_rs [OF that] by (auto simp add: score_of_int)
  have ordered: "sorted_wrt (\<lambda>x y. \<exists>m n. dict_get x ''MatchPercentage'' = Some (JInt m)
                                  \<and> dict_get y ''MatchPercentage'' = Some (JInt n) \<and> n \<le> m) ?out"
  proof (rule sorted_wrt_mono_rel [OF _ sort_reverse_sorted])
    fix x y
    assume "x \<in> set ?out" "y \<in> set ?out" "score y \<le> score x"
    then show "\<exists>m n. dict_get x ''MatchPercentage'' = Some (JInt m)
                 \<and> dict_get y ''MatchPercentage'' = Some (JInt n) \<and> n \<le> m"
      using set_out int_rs score_of_int by metis
  qed
  have stable: "filter (\<lambda>x. dict_get x ''MatchPercentage'' = Some (JInt n)) ?out =
                filter (\<lambda>x. dict_get x ''MatchPercentage'' = Some (JInt n)) rs" for n
  proof -
    have "filter (\<lambda>x. dict_get x ''MatchPercentage'' = Some (JInt n)) ?out =
          filter (\<lambda>x. score x = n) ?out"
      using key set_out by (intro filter_cong) auto
    also have "\<dots> = filter (\<lambda>x. score x = n) rs"
      by (rule sort_reverse_stable)
    also have "\<dots> = filter (\<lambda>x. dict_get x ''MatchPercentage'' = Some (JInt n)) rs"
      using key by (intro filter_cong) auto
    finally show ?thesis .
  qed
  show ?thesis
    using res ordered stable sort_reverse_mset [of rs] by blast
qed

lemma demo_results_ints:
  "list_all (\<lambda>r. \<exists>n. dict_get r ''MatchPercentage'' = Some (JInt n)) demo_results"
  by (simp add: demo_results_def dict_get_def)

lemma demo_results_ranked:
  "sort_results demo_results =
     Inr [[(''Name'', JStr ''b''), (''MatchPercentage'', JInt 70)],
          [(''Name'', JStr ''a''), (''MatchPercentage'', JInt 50)],
          [(''Name'', JStr ''c''), (''MatchPercentage'', JInt 50)]]"
  by (simp add: sort_results_def sort_reverse_def demo_results_def has_score_def score_def
      dict_get_def)

theorem ranking_by_match_percentage_witness:
  "sort_results demo_results =
     Inr [[(''Name'', JStr ''b''), (''MatchPercentage'', JInt 70)],
          [(''Name'', JStr ''a''), (''MatchPercentage'', JInt 50)],
          [(''Name'', JStr ''c''), (''MatchPercentage'', JInt 50)]]
   \<and> sorted_wrt (\<lambda>x y. \<exists>m n. dict_get x ''MatchPercentage'' = Some (JInt m)
                          \<and> dict_get y ''MatchPercentage'' = Some (JInt n) \<and> n \<le> m)
        [[(''Name'', JStr ''b''), (''MatchPercentage'', JInt 70)],
         [(''Name'', JStr ''a''), (''MatchPercentage'', JInt 50)],
         [(''Name'', JStr ''c''), (''MatchPercentage'', JInt 50)]]
   \<and> filter (\<lambda>x. dict_get x ''MatchPercentage'' = Some (JInt 50))
        [[(''Name'', JStr ''b''), (''MatchPercentage'', JInt 70)],
         [(''Name'', JStr ''a''), (''MatchPercentage'', JInt 50)],
         [(''Name'', JStr ''c''), (''MatchPercentage'', JInt 50)]] =
      filter (\<lambda>x. dict_get x ''MatchPercentage'' = Some (JInt 50)) demo_results"
  using ranking_by_match_percentage [OF demo_results_ints] demo_results_ranked
  by auto

section \<open>Text extraction never raises\<close>

lemma except_empty_returns: "\<exists>t. except_empty r = Inr t"
  by (cases r) (simp_all add: except_empty_def)

lemma except_empty_failure: "except_empty (Inl e) = Inr []"
  by (simp add: except_empty_def)

text \<open>
  Claim C10. For every reader and every input bytes, each extractor returns a string and
  never raises: when the PDF reader (or a page of it) or the DOCX reader raises, the
  result is the empty string. The result is a string in every case, never \<^verbatim>\<open>None\<close>.
\<close>

theorem extraction_never_raises:
  "(\<exists>t. extract_text_from_pdf E b = Inr t)
   \<and> (\<exists>t. extract_text_from_pdf_bytes E b = Inr t)
   \<and> (\<exists>t. extract_text_from_docx_bytes E b = Inr t)
   \<and> (\<exists>t. extract_text_from_txt_bytes E b = Inr t)
   \<and> (\<forall>e. read_pdf E b = Inl e \<longrightarrow>
          extract_text_from_pdf E b = Inr [] \<and> extract_text_from_pdf_bytes E b = Inr [])
   \<and> (\<forall>e. docx_paragraphs E b = Inl e \<longrightarrow> extract_text_from_docx_bytes E b = Inr [])"
  by (simp add: extract_text_from_pdf_def extract_text_from_pdf_bytes_def
      extract_text_from_docx_bytes_def extract_text_from_txt_bytes_def
      except_empty_returns except_empty_failure)

lemma demo_corrupt: "read_pdf (demo_env r) ''corrupt'' = Inl (OtherError ''PdfReadError'')"
  by (simp add: read_pdf_def demo_env_def)

lemma demo_corrupt_docx: "docx_paragraphs (demo_env r) ''corrupt'' = Inl (OtherError ''BadZipFile'')"
  by (simp add: demo_env_def)

theorem extraction_never_raises_witness:
  "read_pdf (demo_env id) ''corrupt'' = Inl (OtherError ''PdfReadError'')
   \<and> docx_paragraphs (demo_env id) ''corrupt'' = Inl (OtherError ''BadZipFile'')
   \<and> extract_text_from_pdf (demo_env id) ''corrupt'' = Inr []
   \<and> extract_text_from_pdf_bytes (demo_env id) ''corrupt'' = Inr []
   \<and> extract_text_from_docx_bytes (demo_env id) ''corrupt'' = Inr []"
  using extraction_never_raises [of "demo_env id" "''corrupt''"]
  by (simp add: demo_corrupt demo_corrupt_docx)

lemma demo_pdf_text: "b \<noteq> ''corrupt'' \<Longrightarrow> extract_text_from_pdf (demo_env r) b = Inr b"
  by (simp add: extract_text_from_pdf_def read_pdf_def except_empty_def demo_env_def)

lemma demo_pdf_bytes_text: "b \<noteq> ''corrupt'' \<Longrightarrow> extract_text_from_pdf_bytes (demo_env r) b = Inr b"
  by (simp add: extract_text_from_pdf_bytes_def read_pdf_def except_empty_def demo_env_def)

section \<open>Evaluating the concrete inputs\<close>

lemma demo_json_loads: "json_loads (demo_env r) = demo_loads"
  by (simp add: demo_env_def)

lemma demo_float_repr: "float_repr (demo_env r) double_85_6 = ''85.6''"
  by (simp add: demo_env_def)

lemmas reply_defs = reply_candidate_def reply_empty_name_def reply_fraction_def reply_percent_def
  reply_bare_def reply_blank_fields_def reply_numeric_name_def reply_number_def reply_prose_def

lemmas clean_defs = app_clean_json_def clean_ai_json_def strip_fences_def search_braces_def
  upto_last_brace_def Let_def

lemma clean_candidate:
  "app_clean_json reply_candidate = reply_candidate" "clean_ai_json reply_candidate = reply_candidate"
  by (simp_all add: clean_defs reply_candidate_def)

lemma clean_empty_name:
  "app_clean_json reply_empty_name = reply_empty_name" "clean_ai_json reply_empty_name = reply_empty_name"
  by (simp_all add: clean_defs reply_empty_name_def)

lemma clean_fraction:
  "app_clean_json reply_fraction = reply_fraction" "clean_ai_json reply_fraction = reply_fraction"
  by (simp_all add: clean_defs reply_fraction_def)

lemma clean_percent:
  "app_clean_json reply_percent = reply_percent" "clean_ai_json reply_percent = reply_percent"
  by (simp_all add: clean_defs reply_percent_def)

lemma clean_bare:
  "app_clean_json reply_bare = reply_bare" "clean_ai_json reply_bare = reply_bare"
  by (simp_all add: clean_defs reply_bare_def)

lemma clean_blank_fields:
  "app_clean_json reply_blank_fields = reply_blank_fields"
  "clean_ai_json reply_blank_fields = reply_blank_fields"
  by (simp_all add: clean_defs reply_blank_fields_def)

lemma clean_numeric_name:
  "app_clean_json reply_numeric_name = reply_numeric_name"
  "clean_ai_json reply_numeric_name = reply_numeric_name"
  by (simp_all add: clean_defs reply_numeric_name_def)

lemma clean_number:
  "app_clean_json reply_number = reply_number" "clean_ai_json reply_number = reply_number"
  by (simp_all add: clean_defs reply_number_def)

lemma clean_prose:
  "app_clean_json reply_prose = reply_prose" "clean_ai_json reply_prose = reply_prose"
  by (simp_all add: clean_defs reply_prose_def)

lemma loads_candidate:
  "demo_loads reply_candidate =
     Inr (JObj [(''Name'', JStr ''Candidate Name''), (''MatchPercentage'', JInt 60)])"
  by (simp add: demo_loads_def)

lemma loads_empty_name:
  "demo_loads reply_empty_name = Inr (JObj [(''Name'', JStr []), (''MatchPercentage'', JInt 60)])"
  by (simp add: demo_loads_def reply_defs)

lemma loads_fraction:
  "demo_loads reply_fraction =
     Inr (JObj [(''Name'', JStr ''Ann''), (''MatchPercentage'', JFloat double_85_6)])"
  by (simp add: demo_loads_def reply_defs)

lemma loads_percent:
  "demo_loads reply_percent =
     Inr (JObj [(''Name'', JStr ''Ann''), (''MatchPercentage'', JStr ''85%'')])"
  by (simp add: demo_loads_def reply_defs)

lemma loads_bare: "demo_loads reply_bare = Inr (JObj [(''MatchPercentage'', JInt 60)])"
  by (simp add: demo_loads_def reply_defs)

lemma loads_blank_fields:
  "demo_loads reply_blank_fields =
     Inr (JObj [(''Name'', JStr ''Ann''), (''MatchPercentage'', JInt 60),
                (''GlobalMatch'', JStr []), (''Summary'', JStr [])])"
  by (simp add: demo_loads_def reply_defs)

lemma loads_numeric_name:
  "demo_loads reply_numeric_name = Inr (JObj [(''Name'', JInt 5), (''MatchPercentage'', JInt 60)])"
  by (simp add: demo_loads_def reply_defs)

lemma loads_number: "demo_loads reply_number = Inr (JInt 42)"
  by (simp add: demo_loads_def reply_defs)

lemma loads_prose: "demo_loads reply_prose = Inl JSONDecodeError"
  by (simp add: demo_loads_def reply_defs)

lemma loads_blank: "demo_loads '' '' = Inl JSONDecodeError"
  by (simp add: demo_loads_def reply_defs)

lemmas demo_facts = demo_json_loads demo_float_repr clean_candidate clean_empty_name
  clean_fraction clean_percent clean_bare clean_blank_fields clean_number clean_prose
  loads_candidate loads_empty_name loads_fraction loads_percent loads_bare loads_blank_fields
  loads_number loads_prose clean_numeric_name loads_numeric_name

lemma float_85_6: "py_float ''85.6'' = Some double_85_6"
  unfolding double_85_6_def by code_simp

lemma round_85_6: "py_round double_85_6 = Inr 86"
  unfolding double_85_6_def by code_simp

lemma float_85: "py_float ''85'' = Some (Finite 85)"
  by code_simp

lemma float_60: "py_float ''60'' = Some (Finite 60)"
  by code_simp

lemma float_0: "py_float ''0'' = Some (Finite 0)"
  by code_simp

lemma round_of_int: "py_round (Finite (of_int n)) = Inr n"
  by (simp add: py_round_def round_half_even_def)

lemma round_numerals:
  "py_round (Finite 0) = Inr 0" "py_round (Finite 60) = Inr 60" "py_round (Finite 85) = Inr 85"
  using round_of_int [of 0] round_of_int [of 60] round_of_int [of 85] by simp_all

lemma str_60: "str_of_int 60 = ''60''" and str_0: "str_of_int 0 = ''0''"
  by (simp_all add: str_of_int_def digit_char_def)

lemma strip_plain: "strip ''60'' = ''60''" "strip ''0'' = ''0''" "strip ''85.6'' = ''85.6''"
  "strip ''85%'' = ''85%''"
  by (simp_all add: strip_def is_space_def)

lemmas number_facts = float_85_6 round_85_6 float_85 float_60 float_0 round_numerals str_60 str_0
  strip_plain

lemmas app_defs = app_parse_def app_standardize_def app_fill_name_def app_set_match_percentage_def
  int_max_str_digits_def
  app_match_pct_def app_placeholder_def
  dict_get_def dict_set_def py_str_def isdigit_def is_digit_char_def is_ascii_digit_def
  int_of_digit_string_def nat_of_digits_def digit_val_def Let_def

lemmas st_defs = st_parse_def backfill_def fill_name_def set_match_percentage_def name_is_blank_def default_field_def setdefault_def
  safe_int_percent_def st_placeholder_def dict_get_def dict_set_def py_str_def Let_def

section \<open>The match percentage of a number with a fraction\<close>

text \<open>
  Claim C1. On the reply \<^verbatim>\<open>{"Name":"Ann","MatchPercentage":85.6}\<close>, a JSON object with a
  numeric score, the Flask front end stores the score 0: the text \<^verbatim>\<open>85.6\<close> is not all
  digits. The Streamlit front end stores 86, the score rounded to the nearest integer, as the
  claim states. On the score \<^verbatim>\<open>"85%"\<close> both store 85.
\<close>

theorem flask_drops_fraction:
  "app_parse (demo_env id) ''ann.pdf'' (app_clean_json reply_fraction) =
     Inr [(''Name'', JStr ''Ann''), (''MatchPercentage'', JInt 0), (''Filename'', JStr ''ann.pdf'')]
   \<and> st_parse (demo_env id) ''ann.pdf'' (clean_ai_json reply_fraction) =
     Inr [(''Name'', JStr ''Ann''), (''MatchPercentage'', JInt 86), (''Filename'', JStr ''ann.pdf''),
          (''GlobalMatch'', JStr ''N/A''), (''MarketTier'', JStr []), (''MatchedKeywords'', JArr []),
          (''MissingKeywords'', JArr []), (''Summary'', JStr [])]
   \<and> app_parse (demo_env id) ''ann.pdf'' (app_clean_json reply_percent) =
     Inr [(''Name'', JStr ''Ann''), (''MatchPercentage'', JInt 85), (''Filename'', JStr ''ann.pdf'')]
   \<and> st_parse (demo_env id) ''ann.pdf'' (clean_ai_json reply_percent) =
     Inr [(''Name'', JStr ''Ann''), (''MatchPercentage'', JInt 85), (''Filename'', JStr ''ann.pdf''),
          (''GlobalMatch'', JStr ''N/A''), (''MarketTier'', JStr []), (''MatchedKeywords'', JArr []),
          (''MissingKeywords'', JArr []), (''Summary'', JStr [])]"
  by (simp add: demo_facts number_facts app_defs st_defs)

section \<open>The name of the record\<close>

text \<open>
  Claim C4. On the reply \<^verbatim>\<open>{"Name":"","MatchPercentage":60}\<close> and the file
  \<^verbatim>\<open>john.pdf\<close>, the Flask front end keeps the empty name; the Streamlit front end
  replaces it with the file name, as the claim states. On the reply with the name
  \<^verbatim>\<open>Candidate Name\<close> both front ends give the record the name \<^verbatim>\<open>john.pdf\<close>.
\<close>

theorem flask_keeps_empty_name:
  "app_parse (demo_env id) ''john.pdf'' (app_clean_json reply_empty_name) =
     Inr [(''Name'', JStr []), (''MatchPercentage'', JInt 60), (''Filename'', JStr ''john.pdf'')]
   \<and> st_parse (demo_env id) ''john.pdf'' (clean_ai_json reply_empty_name) =
     Inr [(''Name'', JStr ''john.pdf''), (''MatchPercentage'', JInt 60),
          (''Filename'', JStr ''john.pdf''),
          (''GlobalMatch'', JStr ''N/A''), (''MarketTier'', JStr []), (''MatchedKeywords'', JArr []),
          (''MissingKeywords'', JArr []), (''Summary'', JStr [])]
   \<and> app_parse (demo_env id) ''john.pdf'' (app_clean_json reply_candidate) =
     Inr [(''Name'', JStr ''john.pdf''), (''MatchPercentage'', JInt 60),
          (''Filename'', JStr ''john.pdf'')]
   \<and> st_parse (demo_env id) ''john.pdf'' (clean_ai_json reply_candidate) =
     Inr [(''Name'', JStr ''john.pdf''), (''MatchPercentage'', JInt 60),
          (''Filename'', JStr ''john.pdf''),
          (''GlobalMatch'', JStr ''N/A''), (''MarketTier'', JStr []), (''MatchedKeywords'', JArr []),
          (''MissingKeywords'', JArr []), (''Summary'', JStr [])]"
  by (simp add: demo_facts number_facts app_defs st_defs)

section \<open>The file name of the record\<close>

text \<open>
  Claim C5. On a reply that is not JSON, the record the Flask front end appends has no
  \<^verbatim>\<open>Filename\<close> field; the record of the Streamlit front end has the file name there,
  as the claim states.
\<close>

theorem flask_placeholder_without_filename:
  "app_parse (demo_env id) ''john.pdf'' (app_clean_json reply_prose) =
     Inr [(''Name'', JStr ''john.pdf''), (''MatchPercentage'', JInt 0),
          (''Summary'', JStr ''Error parsing AI response. View Terminal for details.''),
          (''GlobalMatch'', JStr ''N/A'')]
   \<and> dict_get (app_placeholder ''john.pdf'') ''Filename'' = None
   \<and> st_parse (demo_env id) ''john.pdf'' (clean_ai_json reply_prose) =
     Inr [(''Name'', JStr ''john.pdf''), (''MatchPercentage'', JInt 0),
          (''GlobalMatch'', JStr ''N/A''), (''MarketTier'', JStr []), (''MatchedKeywords'', JArr []),
          (''MissingKeywords'', JArr []), (''Summary'', JStr ''Error parsing AI response.''),
          (''Filename'', JStr ''john.pdf'')]"
  by (simp add: demo_facts number_facts app_defs st_defs)

section \<open>Fields of a normalized record\<close>

lemma dict_get_set: "dict_get (dict_set k v d) k' = (if k' = k then Some v else dict_get d k')"
  by (simp add: dict_get_def dict_set_def update_conv')

lemma dict_get_default_field:
  "dict_get (default_field k dflt d) k' =
     (if k' = k then Some (case dict_get d k of None \<Rightarrow> dflt | Some v \<Rightarrow> v) else dict_get d k')"
  by (cases "dict_get d k") (simp_all add: default_field_def setdefault_def dict_get_set)

lemma dict_get_fill_name:
  "dict_get (fill_name name d) k =
     (if k = ''Name'' \<and> name_is_blank d then Some (JStr name) else dict_get d k)"
  by (simp add: fill_name_def dict_get_set)

lemma dict_get_set_match_percentage:
  "dict_get (set_match_percentage E d) k =
     (if k = ''MatchPercentage''
      then Some (JInt (safe_int_percent E
             (case dict_get d ''MatchPercentage'' of None \<Rightarrow> JInt 0 | Some v \<Rightarrow> v)))
      else dict_get d k)"
  by (simp add: set_match_percentage_def dict_get_set)

lemmas dict_get_steps = dict_get_default_field dict_get_set_match_percentage dict_get_set
  dict_get_fill_name

lemma backfill_filename: "dict_get (backfill E name d) ''Filename'' = Some (JStr name)"
  by (simp add: backfill_def dict_get_steps)

lemma backfill_name:
  "dict_get (backfill E name d) ''Name'' =
     (if name_is_blank d then Some (JStr name) else dict_get d ''Name'')"
  by (simp add: backfill_def dict_get_steps)

lemma backfill_match_percentage:
  "dict_get (backfill E name d) ''MatchPercentage'' =
     Some (JInt (safe_int_percent E
       (case dict_get d ''MatchPercentage'' of None \<Rightarrow> JInt 0 | Some v \<Rightarrow> v)))"
  by (simp add: backfill_def dict_get_steps)

lemma backfill_default:
  assumes "neutral_default k = Some dflt"
  shows "dict_get (backfill E name d) k = Some (case dict_get d k of None \<Rightarrow> dflt | Some v \<Rightarrow> v)"
  using assms
  by (auto simp add: neutral_default_def backfill_def dict_get_steps split: if_splits)

lemma app_standardize_other:
  assumes "app_standardize E fname d = Inr r"
    and "k \<noteq> ''Name''" and "k \<noteq> ''Filename''" and "k \<noteq> ''MatchPercentage''"
  shows "dict_get r k = dict_get d k"
  using assms
  by (auto simp add: app_standardize_def app_set_match_percentage_def app_fill_name_def
      dict_get_set split: sum.splits if_splits)

lemma app_standardize_filename:
  "app_standardize E fname d = Inr r \<Longrightarrow> dict_get r ''Filename'' = Some (JStr fname)"
  by (auto simp add: app_standardize_def app_set_match_percentage_def dict_get_set
      split: sum.splits)

lemma app_standardize_score:
  "app_standardize E fname d = Inr r \<Longrightarrow> \<exists>n. dict_get r ''MatchPercentage'' = Some (JInt n)"
  by (auto simp add: app_standardize_def app_set_match_percentage_def dict_get_set
      split: sum.splits)

lemma safe_int_percent_zero: "safe_int_percent E (JInt 0) = 0"
  by (simp add: safe_int_percent_def py_str_def number_facts)

section \<open>Defaults of the five neutral fields\<close>

text \<open>
  Claim C8. On the reply \<^verbatim>\<open>{"MatchPercentage":60}\<close>, a JSON object without any of the
  five fields, the record of the Flask front end has none of them: nothing is defaulted
  there. The Streamlit front end gives each of them its neutral value, as the claim states.
  On a reply with an empty global match and an empty summary both front ends keep the
  empty texts.
\<close>

theorem flask_fills_no_default:
  "app_parse (demo_env id) ''ann.pdf'' (app_clean_json reply_bare) =
     Inr [(''MatchPercentage'', JInt 60), (''Name'', JStr ''ann.pdf''),
          (''Filename'', JStr ''ann.pdf'')]
   \<and> map (dict_get [(''MatchPercentage'', JInt 60), (''Name'', JStr ''ann.pdf''),
          (''Filename'', JStr ''ann.pdf'')])
        [''GlobalMatch'', ''MarketTier'', ''MatchedKeywords'', ''MissingKeywords'', ''Summary''] =
      [None, None, None, None, None]
   \<and> st_parse (demo_env id) ''ann.pdf'' (clean_ai_json reply_bare) =
     Inr [(''MatchPercentage'', JInt 60), (''Name'', JStr ''ann.pdf''),
          (''Filename'', JStr ''ann.pdf''),
          (''GlobalMatch'', JStr ''N/A''), (''MarketTier'', JStr []), (''MatchedKeywords'', JArr []),
          (''MissingKeywords'', JArr []), (''Summary'', JStr [])]
   \<and> app_parse (demo_env id) ''ann.pdf'' (app_clean_json reply_blank_fields) =
     Inr [(''Name'', JStr ''Ann''), (''MatchPercentage'', JInt 60),
          (''GlobalMatch'', JStr []), (''Summary'', JStr []), (''Filename'', JStr ''ann.pdf'')]
   \<and> st_parse (demo_env id) ''ann.pdf'' (clean_ai_json reply_blank_fields) =
     Inr [(''Name'', JStr ''Ann''), (''MatchPercentage'', JInt 60),
          (''GlobalMatch'', JStr []), (''Summary'', JStr []), (''Filename'', JStr ''ann.pdf''),
          (''MarketTier'', JStr []), (''MatchedKeywords'', JArr []), (''MissingKeywords'', JArr [])]"
  by (simp add: demo_facts number_facts app_defs st_defs)

text \<open>
  For every reply that parses to a JSON object and each of the five fields, the Streamlit
  front end gives the record the parsed value when the field is present (an empty text or
  a null too) and the neutral value when it is absent.
\<close>

lemma streamlit_defaults_when_absent:
  assumes "json_loads E cleaned = Inr (JObj parsed)"
    and "neutral_default k = Some dflt"
  shows "\<exists>r. st_parse E name cleaned = Inr r
            \<and> dict_get r k = Some (case dict_get parsed k of None \<Rightarrow> dflt | Some v \<Rightarrow> v)"
proof -
  have "st_parse E name cleaned = Inr (backfill E name parsed)"
    using assms(1) by (simp add: st_parse_def)
  then show ?thesis
    using backfill_default [OF assms(2)] by simp
qed

section \<open>The placeholder for a reply that is not JSON\<close>

lemma default_field_present: "dict_get d k = Some v \<Longrightarrow> default_field k dflt d = d"
  by (simp add: default_field_def setdefault_def)

lemma fill_name_placeholder: "fill_name name (st_placeholder name) = st_placeholder name"
  by (simp add: fill_name_def st_placeholder_def dict_set_def)

lemma placeholder_fields:
  "dict_get (st_placeholder name) ''Name'' = Some (JStr name)"
  "dict_get (st_placeholder name) ''MatchPercentage'' = Some (JInt 0)"
  "dict_get (st_placeholder name) ''GlobalMatch'' = Some (JStr ''N/A'')"
  "dict_get (st_placeholder name) ''MarketTier'' = Some (JStr [])"
  "dict_get (st_placeholder name) ''MatchedKeywords'' = Some (JArr [])"
  "dict_get (st_placeholder name) ''MissingKeywords'' = Some (JArr [])"
  "dict_get (st_placeholder name) ''Summary'' = Some (JStr ''Error parsing AI response.'')"
  by (simp_all add: st_placeholder_def dict_get_def)

lemma set_match_percentage_placeholder:
  "set_match_percentage E (dict_set ''Filename'' (JStr name) (st_placeholder name)) =
     dict_set ''Filename'' (JStr name) (st_placeholder name)"
proof -
  have "dict_get (dict_set ''Filename'' (JStr name) (st_placeholder name)) ''MatchPercentage'' =
          Some (JInt 0)"
    by (simp add: dict_get_set placeholder_fields)
  then have "set_match_percentage E (dict_set ''Filename'' (JStr name) (st_placeholder name)) =
      dict_set ''MatchPercentage'' (JInt 0) (dict_set ''Filename'' (JStr name) (st_placeholder name))"
    by (simp add: set_match_percentage_def safe_int_percent_zero)
  also have "\<dots> = dict_set ''Filename'' (JStr name) (st_placeholder name)"
    by (simp add: dict_set_def st_placeholder_def)
  finally show ?thesis .
qed

lemma backfill_placeholder:
  "backfill E name (st_placeholder name) = dict_set ''Filename'' (JStr name) (st_placeholder name)"
proof -
  let ?p = "dict_set ''Filename'' (JStr name) (st_placeholder name)"
  have f: "dict_get ?p ''GlobalMatch'' = Some (JStr ''N/A'')"
    "dict_get ?p ''MarketTier'' = Some (JStr [])"
    "dict_get ?p ''MatchedKeywords'' = Some (JArr [])"
    "dict_get ?p ''MissingKeywords'' = Some (JArr [])"
    "dict_get ?p ''Summary'' = Some (JStr ''Error parsing AI response.'')"
    by (simp_all add: dict_get_set placeholder_fields)
  show ?thesis
    unfolding backfill_def fill_name_placeholder set_match_percentage_placeholder
    by (simp only: default_field_present [OF f(1)] default_field_present [OF f(2)]
        default_field_present [OF f(3)] default_field_present [OF f(4)]
        default_field_present [OF f(5)])
qed

lemma st_parse_undecodable:
  "json_loads E cleaned = Inl JSONDecodeError \<Longrightarrow>
   st_parse E name cleaned = Inr (dict_set ''Filename'' (JStr name) (st_placeholder name))"
  by (simp add: st_parse_def backfill_placeholder)

lemma app_parse_undecodable:
  "json_loads E cleaned = Inl JSONDecodeError \<Longrightarrow>
   app_parse E name cleaned = Inr (app_placeholder name)"
  by (simp add: app_parse_def)

text \<open>
  Claim C3. On a reply that is not JSON the placeholder of the Flask front end has the
  file name as name, the score 0, the global match \<^verbatim>\<open>N/A\<close> and a fixed message as
  summary, but no keyword list at all, neither matched nor missing. The placeholder of
  the Streamlit front end has both lists, present and empty, as the claim states.
\<close>

theorem flask_placeholder_without_keywords:
  "app_parse (demo_env id) ''john.pdf'' (app_clean_json reply_prose) =
     Inr (app_placeholder ''john.pdf'')
   \<and> app_placeholder ''john.pdf'' =
     [(''Name'', JStr ''john.pdf''), (''MatchPercentage'', JInt 0),
      (''Summary'', JStr ''Error parsing AI response. View Terminal for details.''),
      (''GlobalMatch'', JStr ''N/A'')]
   \<and> dict_get (app_placeholder ''john.pdf'') ''MatchedKeywords'' = None
   \<and> dict_get (app_placeholder ''john.pdf'') ''MissingKeywords'' = None
   \<and> (\<exists>r. st_parse (demo_env id) ''john.pdf'' (clean_ai_json reply_prose) = Inr r
          \<and> dict_get r ''MatchedKeywords'' = Some (JArr [])
          \<and> dict_get r ''MissingKeywords'' = Some (JArr []))"
  by (simp add: demo_facts st_parse_undecodable app_parse_def app_placeholder_def dict_get_set
      placeholder_fields)
    (simp add: dict_get_def)

text \<open>
  For every reply whose cleaned text \<^verbatim>\<open>json.loads\<close> rejects with a JSONDecodeError,
  both front ends produce a placeholder record with the file name as name, the score 0,
  the global match \<^verbatim>\<open>N/A\<close> and a fixed, non-empty message as summary; only the
  Streamlit placeholder has the keyword lists. In both, the loop over the files goes on
  with the remaining files after appending the placeholder.
\<close>

lemma placeholder_on_undecodable_reply:
  assumes "json_loads E cleaned = Inl JSONDecodeError"
  shows "(\<exists>r. st_parse E name cleaned = Inr r
            \<and> dict_get r ''Name'' = Some (JStr name)
            \<and> dict_get r ''MatchPercentage'' = Some (JInt 0)
            \<and> dict_get r ''GlobalMatch'' = Some (JStr ''N/A'')
            \<and> dict_get r ''Summary'' = Some (JStr ''Error parsing AI response.'')
            \<and> dict_get r ''MatchedKeywords'' = Some (JArr [])
            \<and> dict_get r ''MissingKeywords'' = Some (JArr []))
       \<and> (\<exists>r. app_parse E name cleaned = Inr r
            \<and> dict_get r ''Name'' = Some (JStr name)
            \<and> dict_get r ''MatchPercentage'' = Some (JInt 0)
            \<and> dict_get r ''GlobalMatch'' = Some (JStr ''N/A'')
            \<and> dict_get r ''Summary'' =
                 Some (JStr ''Error parsing AI response. View Terminal for details.'')
            \<and> dict_get r ''MatchedKeywords'' = None
            \<and> dict_get r ''MissingKeywords'' = None)
       \<and> (\<forall>up ups acc text.
             file_size up \<le> max_size
             \<and> st_extract E (file_name up) (file_bytes up) = Inr (Some text)
             \<and> strip text \<noteq> []
             \<and> clean_ai_json (get_gemini_response E text jd) = cleaned
             \<longrightarrow> st_loop E jd (up # ups) acc =
                   st_loop E jd ups
                     (acc @ [dict_set ''Filename'' (JStr (file_name up)) (st_placeholder (file_name up))]))
       \<and> (\<forall>file files acc text.
             filename file \<noteq> []
             \<and> extract_text_from_pdf E (content file) = Inr text
             \<and> text \<noteq> []
             \<and> app_clean_json (app_get_gemini_response E text jd) = cleaned
             \<longrightarrow> app_loop E jd (file # files) acc =
                   app_loop E jd files (acc @ [app_placeholder (filename file)]))"
proof -
  have st: "st_parse E n cleaned = Inr (dict_set ''Filename'' (JStr n) (st_placeholder n))" for n
    using assms by (rule st_parse_undecodable)
  have app: "app_parse E n cleaned = Inr (app_placeholder n)" for n
    using assms by (rule app_parse_undecodable)
  have nonblank: "strip t \<noteq> [] \<Longrightarrow> t \<noteq> []" for t
    by (auto simp add: strip_def)
  have a: "\<exists>r. st_parse E name cleaned = Inr r
            \<and> dict_get r ''Name'' = Some (JStr name)
            \<and> dict_get r ''MatchPercentage'' = Some (JInt 0)
            \<and> dict_get r ''GlobalMatch'' = Some (JStr ''N/A'')
            \<and> dict_get r ''Summary'' = Some (JStr ''Error parsing AI response.'')
            \<and> dict_get r ''MatchedKeywords'' = Some (JArr [])
            \<and> dict_get r ''MissingKeywords'' = Some (JArr [])"
    by (simp add: st dict_get_set placeholder_fields)
  have b: "\<exists>r. app_parse E name cleaned = Inr r
            \<and> dict_get r ''Name'' = Some (JStr name)
            \<and> dict_get r ''MatchPercentage'' = Some (JInt 0)
            \<and> dict_get r ''GlobalMatch'' = Some (JStr ''N/A'')
            \<and> dict_get r ''Summary'' =
                 Some (JStr ''Error parsing AI response. View Terminal for details.'')
            \<and> dict_get r ''MatchedKeywords'' = None
            \<and> dict_get r ''MissingKeywords'' = None"
    by (simp add: app) (simp add: app_placeholder_def dict_get_def)
  have c: "\<forall>up ups acc text.
             file_size up \<le> max_size
             \<and> st_extract E (file_name up) (file_bytes up) = Inr (Some text)
             \<and> strip text \<noteq> []
             \<and> clean_ai_json (get_gemini_response E text jd) = cleaned
             \<longrightarrow> st_loop E jd (up # ups) acc =
                   st_loop E jd ups
                     (acc @ [dict_set ''Filename'' (JStr (file_name up)) (st_placeholder (file_name up))])"
  proof (intro allI impI, elim conjE)
    fix up :: uploaded and ups acc t
    assume h: "file_size up \<le> max_size"
      "st_extract E (file_name up) (file_bytes up) = Inr (Some t)"
      "strip t \<noteq> []" "clean_ai_json (get_gemini_response E t jd) = cleaned"
    have "st_file E jd up =
            Inr (Some (dict_set ''Filename'' (JStr (file_name up)) (st_placeholder (file_name up))))"
      using h nonblank [of t] by (simp add: st_file_def st)
    then show "st_loop E jd (up # ups) acc =
                   st_loop E jd ups
                     (acc @ [dict_set ''Filename'' (JStr (file_name up)) (st_placeholder (file_name up))])"
      by simp
  qed
  have d: "\<forall>file files acc text.
             filename file \<noteq> []
             \<and> extract_text_from_pdf E (content file) = Inr text
             \<and> text \<noteq> []
             \<and> app_clean_json (app_get_gemini_response E text jd) = cleaned
             \<longrightarrow> app_loop E jd (file # files) acc =
                   app_loop E jd files (acc @ [app_placeholder (filename file)])"
  proof (intro allI impI, elim conjE)
    fix f :: upload and fs acc t
    assume h: "filename f \<noteq> []" "extract_text_from_pdf E (content f) = Inr t"
      "t \<noteq> []" "app_clean_json (app_get_gemini_response E t jd) = cleaned"
    have "app_file E jd f = Inr (Some (app_placeholder (filename f)))"
      using h by (simp add: app_file_def app)
    then show "app_loop E jd (f # fs) acc =
                   app_loop E jd fs (acc @ [app_placeholder (filename f)])"
      by simp
  qed
  show ?thesis
    by (rule conjI [OF a conjI [OF b conjI [OF c d]]])
qed

section \<open>Evaluating the uploads\<close>

lemma demo_replies:
  "app_get_gemini_response (demo_env r) t jd = r t"
  "get_gemini_response (demo_env r) t jd = r t"
  by (simp_all add: app_get_gemini_response_def get_gemini_response_def demo_env_def)

lemma demo_st_extract:
  "b \<noteq> ''corrupt'' \<Longrightarrow> st_extract (demo_env r) ''a.pdf'' b = Inr (Some b)"
  "b \<noteq> ''corrupt'' \<Longrightarrow> st_extract (demo_env r) ''b.pdf'' b = Inr (Some b)"
  "b \<noteq> ''corrupt'' \<Longrightarrow> st_extract (demo_env r) ''c.pdf'' b = Inr (Some b)"
  by (simp_all add: st_extract_def lower_def lower_char_def endswith_def demo_pdf_bytes_text)

lemma reply_by_text_values:
  "reply_by_text ''first'' = reply_number"
  "reply_by_text ''second'' = reply_candidate"
  "reply_by_text '' '' = reply_candidate"
  by (simp_all add: reply_by_text_def)

lemma strip_texts: "strip ''first'' = ''first''" "strip ''second'' = ''second''" "strip '' '' = []"
  by (simp_all add: strip_def is_space_def)

lemma app_parse_number: "app_parse (demo_env r) name reply_number = Inl TypeError"
  by (simp add: app_parse_def demo_facts)

lemma st_parse_number: "st_parse (demo_env r) name reply_number = Inl AttributeError"
  by (simp add: st_parse_def demo_facts)

lemma app_parse_second:
  "app_parse (demo_env r) ''b.pdf'' reply_candidate =
     Inr [(''Name'', JStr ''b.pdf''), (''MatchPercentage'', JInt 60), (''Filename'', JStr ''b.pdf'')]"
  by (simp add: demo_facts number_facts app_defs)

lemma app_parse_blank:
  "app_parse (demo_env r) ''c.pdf'' reply_candidate =
     Inr [(''Name'', JStr ''c.pdf''), (''MatchPercentage'', JInt 60), (''Filename'', JStr ''c.pdf'')]"
  by (simp add: demo_facts number_facts app_defs)

lemma st_parse_second:
  "st_parse (demo_env r) ''b.pdf'' reply_candidate =
     Inr [(''Name'', JStr ''b.pdf''), (''MatchPercentage'', JInt 60), (''Filename'', JStr ''b.pdf''),
          (''GlobalMatch'', JStr ''N/A''), (''MarketTier'', JStr []), (''MatchedKeywords'', JArr []),
          (''MissingKeywords'', JArr []), (''Summary'', JStr [])]"
  by (simp add: demo_facts number_facts st_defs)

lemma st_parse_numeric_name:
  "st_parse (demo_env r) ''b.pdf'' reply_numeric_name =
     Inr [(''Name'', JInt 5), (''MatchPercentage'', JInt 60), (''Filename'', JStr ''b.pdf''),
          (''GlobalMatch'', JStr ''N/A''), (''MarketTier'', JStr []), (''MatchedKeywords'', JArr []),
          (''MissingKeywords'', JArr []), (''Summary'', JStr [])]"
  by (simp add: demo_facts number_facts st_defs)

lemma app_file_first: "app_file (demo_env reply_by_text) jd first_pdf = Inl TypeError"
  by (simp add: app_file_def first_pdf_def demo_pdf_text demo_replies reply_by_text_values
      demo_facts app_parse_number)

lemma app_file_second:
  "app_file (demo_env reply_by_text) jd second_pdf =
     Inr (Some [(''Name'', JStr ''b.pdf''), (''MatchPercentage'', JInt 60),
                (''Filename'', JStr ''b.pdf'')])"
  by (simp add: app_file_def second_pdf_def demo_pdf_text demo_replies reply_by_text_values
      demo_facts app_parse_second)

lemma app_file_blank:
  "app_file (demo_env reply_by_text) jd blank_pdf =
     Inr (Some [(''Name'', JStr ''c.pdf''), (''MatchPercentage'', JInt 60),
                (''Filename'', JStr ''c.pdf'')])"
  by (simp add: app_file_def blank_pdf_def demo_pdf_text demo_replies reply_by_text_values
      demo_facts app_parse_blank)

lemma st_file_first: "st_file (demo_env reply_by_text) jd first_uploaded = Inl AttributeError"
  by (simp add: st_file_def first_uploaded_def max_size_def demo_st_extract strip_texts
      demo_replies reply_by_text_values demo_facts st_parse_number)

lemma st_file_second:
  "st_file (demo_env reply_by_text) jd second_uploaded =
     Inr (Some [(''Name'', JStr ''b.pdf''), (''MatchPercentage'', JInt 60),
          (''Filename'', JStr ''b.pdf''),
          (''GlobalMatch'', JStr ''N/A''), (''MarketTier'', JStr []), (''MatchedKeywords'', JArr []),
          (''MissingKeywords'', JArr []), (''Summary'', JStr [])])"
  by (simp add: st_file_def second_uploaded_def max_size_def demo_st_extract strip_texts
      demo_replies reply_by_text_values demo_facts st_parse_second)

lemma st_file_blank: "st_file (demo_env reply_by_text) jd blank_uploaded = Inr None"
  by (simp add: st_file_def blank_uploaded_def max_size_def demo_st_extract strip_texts)

lemma st_file_numeric_name:
  "st_file (demo_env (\<lambda>t. reply_numeric_name)) jd second_uploaded =
     Inr (Some [(''Name'', JInt 5), (''MatchPercentage'', JInt 60),
          (''Filename'', JStr ''b.pdf''),
          (''GlobalMatch'', JStr ''N/A''), (''MarketTier'', JStr []), (''MatchedKeywords'', JArr []),
          (''MissingKeywords'', JArr []), (''Summary'', JStr [])])"
  by (simp add: st_file_def second_uploaded_def max_size_def demo_st_extract strip_texts
      demo_replies demo_facts st_parse_numeric_name)

lemma render_second:
  "render_card [(''Name'', JStr ''b.pdf''), (''MatchPercentage'', JInt 60),
          (''Filename'', JStr ''b.pdf''),
          (''GlobalMatch'', JStr ''N/A''), (''MarketTier'', JStr []), (''MatchedKeywords'', JArr []),
          (''MissingKeywords'', JArr []), (''Summary'', JStr [])] = Inr ()"
  by (simp add: render_card_def score_tag_def html_escape_def get_or_def missing_html_def
      truthy_def dict_get_def)

lemma render_numeric_name:
  "render_card [(''Name'', JInt 5), (''MatchPercentage'', JInt 60),
          (''Filename'', JStr ''b.pdf''),
          (''GlobalMatch'', JStr ''N/A''), (''MarketTier'', JStr []), (''MatchedKeywords'', JArr []),
          (''MissingKeywords'', JArr []), (''Summary'', JStr [])] = Inl AttributeError"
  by (simp add: render_card_def score_tag_def html_escape_def dict_get_def)

lemmas upload_facts = app_file_first app_file_second app_file_blank st_file_first st_file_second
  st_file_blank st_file_numeric_name render_second render_numeric_name

lemma sort_one:
  "sort_results [(''Name'', v) # (''MatchPercentage'', JInt n) # r] =
     Inr [(''Name'', v) # (''MatchPercentage'', JInt n) # r]"
  by (simp add: sort_results_def sort_reverse_def has_score_def dict_get_def)

lemma upload_fields:
  "content first_pdf = ''first''" "content blank_pdf = '' ''"
  "file_name first_uploaded = ''a.pdf''" "file_bytes first_uploaded = ''first''"
  by (simp_all add: first_pdf_def blank_pdf_def first_uploaded_def)

lemmas rank_defs = analyze_def run_btn_def sort_one

section \<open>A reply that is JSON but not an object\<close>

text \<open>
  Claim C2. In a batch of two files where the model answers \<^verbatim>\<open>42\<close> on the first, a
  valid JSON text that is not an object, the Flask front end answers the whole request
  with status 500 and the Streamlit front end ends with an AttributeError that nothing
  catches: no placeholder is made, and the second file, which alone gives a record, is
  not processed. In the Streamlit front end a reply with a number as name,
  \<^verbatim>\<open>{"Name":5,"MatchPercentage":60}\<close>, gives a record, and the page then ends with an
  AttributeError while the cards are drawn.
\<close>

theorem non_object_reply_aborts_batch:
  "analyze (demo_env reply_by_text) (Some ''jd'') [first_pdf, second_pdf] = ServerError TypeError
   \<and> analyze (demo_env reply_by_text) (Some ''jd'') [second_pdf] =
       Results [[(''Name'', JStr ''b.pdf''), (''MatchPercentage'', JInt 60),
                 (''Filename'', JStr ''b.pdf'')]]
   \<and> run_btn (demo_env reply_by_text) ''jd'' [first_uploaded, second_uploaded] =
       Inl AttributeError
   \<and> run_btn (demo_env reply_by_text) ''jd'' [second_uploaded] =
       Inr (Ranking [[(''Name'', JStr ''b.pdf''), (''MatchPercentage'', JInt 60),
          (''Filename'', JStr ''b.pdf''),
          (''GlobalMatch'', JStr ''N/A''), (''MarketTier'', JStr []), (''MatchedKeywords'', JArr []),
          (''MissingKeywords'', JArr []), (''Summary'', JStr [])]])
   \<and> st_loop (demo_env (\<lambda>t. reply_numeric_name)) ''jd'' [second_uploaded] [] =
       Inr [[(''Name'', JInt 5), (''MatchPercentage'', JInt 60),
          (''Filename'', JStr ''b.pdf''),
          (''GlobalMatch'', JStr ''N/A''), (''MarketTier'', JStr []), (''MatchedKeywords'', JArr []),
          (''MissingKeywords'', JArr []), (''Summary'', JStr [])]]
   \<and> run_btn (demo_env (\<lambda>t. reply_numeric_name)) ''jd'' [second_uploaded] =
       Inl AttributeError"
  by (simp add: upload_facts rank_defs)

section \<open>One record for each file with text\<close>

text \<open>
  Claim C6. A file whose extracted text is \<^verbatim>\<open>first\<close>, not empty, on which the model
  answers \<^verbatim>\<open>42\<close>, yields no record in either front end: the round of the loop ends
  with an exception and the request with it. A file whose extracted text is a single
  space yields a record in the Flask front end, which tests the text without stripping
  it; the Streamlit front end skips it.
\<close>

theorem non_object_reply_leaves_no_record:
  "extract_text_from_pdf (demo_env reply_by_text) (content first_pdf) = Inr ''first''
   \<and> app_file (demo_env reply_by_text) ''jd'' first_pdf = Inl TypeError
   \<and> analyze (demo_env reply_by_text) (Some ''jd'') [first_pdf] = ServerError TypeError
   \<and> st_extract (demo_env reply_by_text) (file_name first_uploaded) (file_bytes first_uploaded) =
       Inr (Some ''first'')
   \<and> st_file (demo_env reply_by_text) ''jd'' first_uploaded = Inl AttributeError
   \<and> run_btn (demo_env reply_by_text) ''jd'' [first_uploaded] = Inl AttributeError
   \<and> extract_text_from_pdf (demo_env reply_by_text) (content blank_pdf) = Inr '' ''
   \<and> app_loop (demo_env reply_by_text) ''jd'' [blank_pdf] [] =
       Inr [[(''Name'', JStr ''c.pdf''), (''MatchPercentage'', JInt 60),
             (''Filename'', JStr ''c.pdf'')]]
   \<and> st_loop (demo_env reply_by_text) ''jd'' [blank_uploaded] [] = Inr []"
  by (simp add: upload_facts rank_defs demo_pdf_text demo_st_extract upload_fields)

section \<open>Requests without a job description or without files\<close>

text \<open>
  Against claim C9 as stated: with an empty job description and one file, the Streamlit
  front end processes the file and shows its ranking.
\<close>

theorem streamlit_ranks_without_jd:
  "run_btn (demo_env reply_by_text) [] [second_uploaded] =
     Inr (Ranking [[(''Name'', JStr ''b.pdf''), (''MatchPercentage'', JInt 60),
          (''Filename'', JStr ''b.pdf''),
          (''GlobalMatch'', JStr ''N/A''), (''MarketTier'', JStr []), (''MatchedKeywords'', JArr []),
          (''MissingKeywords'', JArr []), (''Summary'', JStr [])]])"
  by (simp add: upload_facts rank_defs)

text \<open>
  Claim C9, amended. A request without files is rejected by both front ends with a
  validation error, whatever the libraries would do: nothing is extracted, the model is
  not asked and no result is produced. A request without a job description, missing or
  empty, is rejected the same way by the Flask front end. The Streamlit front end never
  rejects a request that has files, with or without a job description.
\<close>

theorem missing_input_rejected:
  "run_btn E jd [] = Inr (NoFiles ''Select at least one resume before ranking.'')
   \<and> analyze E None files = BadRequest ''Please provide both JD and Resumes''
   \<and> analyze E (Some []) files = BadRequest ''Please provide both JD and Resumes''
   \<and> analyze E form_jd [] = BadRequest ''Please provide both JD and Resumes''
   \<and> (uploaded_files \<noteq> [] \<longrightarrow> (\<forall>m. run_btn E jd uploaded_files \<noteq> Inr (NoFiles m)))"
  by (auto simp add: run_btn_def analyze_def split: option.splits sum.splits)

theorem missing_input_rejected_witness:
  "[second_uploaded] \<noteq> []
   \<and> run_btn (demo_env reply_by_text) [] [] =
       Inr (NoFiles ''Select at least one resume before ranking.'')
   \<and> analyze (demo_env reply_by_text) None [second_pdf] =
       BadRequest ''Please provide both JD and Resumes''
   \<and> analyze (demo_env reply_by_text) (Some []) [second_pdf] =
       BadRequest ''Please provide both JD and Resumes''
   \<and> analyze (demo_env reply_by_text) (Some ''jd'') [] =
       BadRequest ''Please provide both JD and Resumes''
   \<and> run_btn (demo_env reply_by_text) [] [second_uploaded] \<noteq>
       Inr (NoFiles ''Select at least one resume before ranking.'')"
  using missing_input_rejected [where E = "demo_env reply_by_text" and jd = "[]"
      and files = "[second_pdf]" and form_jd = "Some ''jd''"
      and uploaded_files = "[second_uploaded]"]
  by simp

end
